theory Spec2Isabelle
  imports Complex_Main
begin

section \<open>Data model of main.go\<close>

text \<open>
  \<open>time.Duration\<close> is a signed count of nanoseconds; the program only stores it and
  hands it on, so it is an \<open>int\<close>. A \<open>float64\<close> reading is decoded from JSON
  (always a finite number) and copied into a gauge without arithmetic, so it is a \<open>real\<close>.
  A Go \<open>error\<close> value is its message.
\<close>

type_synonym Duration = int
type_synonym float64 = real

datatype go_error = GoError string

record Ecoflow =
  Description :: string
  SerialNumber :: string
  AppKey :: string
  SecretKey :: string

record EcoflowApiData =
  Soc :: float64
  RemainTime :: float64
  WattsOutSum :: float64
  WattsInSum :: float64

record EcoflowApi =
  Code :: string
  Message :: string
  Data :: EcoflowApiData

text \<open>The zero value \<open>EcoflowApi{}\<close>.\<close>

definition EcoflowApi_zero :: EcoflowApi where
  "EcoflowApi_zero =
     \<lparr>Code = [], Message = [],
      Data = \<lparr>Soc = 0, RemainTime = 0, WattsOutSum = 0, WattsInSum = 0\<rparr>\<rparr>"

text \<open>
  A \<open>prometheus.Gauge\<close>: the options it was made from and the value it holds.
  \<open>ConstLabels\<close> is the two-entry label literal of the source.
\<close>

record Gauge =
  Namespace :: string
  Name :: string
  Help :: string
  ConstLabels :: "(string \<times> string) list"
  gauge_value :: float64

definition namespace :: string where
  "namespace = ''ecoflow''"

definition NewGauge :: "string \<Rightarrow> string \<Rightarrow> string \<Rightarrow> (string \<times> string) list \<Rightarrow> Gauge" where
  "NewGauge ns n h ls =
     \<lparr>Namespace = ns, Name = n, Help = h, ConstLabels = ls, gauge_value = 0\<rparr>"

definition Set_gauge :: "Gauge \<Rightarrow> float64 \<Rightarrow> Gauge" where
  "Set_gauge g v = g\<lparr>gauge_value := v\<rparr>"

text \<open>
  \<open>EcoflowExporter\<close>. The model follows one goroutine through a call, where
  \<open>mutex.Lock()\<close> is granted at once; the mutex itself carries no data.
\<close>

record EcoflowExporter =
  ecoflow :: Ecoflow
  checkTimeout :: Duration
  checkError :: Gauge
  soc :: Gauge
  remaintime :: Gauge
  wattsoutsum :: Gauge
  wattsinsum :: Gauge

section \<open>defaults and CreateExporters\<close>

definition defaults :: "Ecoflow \<Rightarrow> Ecoflow" where
  "defaults params =
     (if Description params = [] then params\<lparr>Description := SerialNumber params\<rparr>
      else params)"

definition exporter_labels :: "Ecoflow \<Rightarrow> (string \<times> string) list" where
  "exporter_labels e = [(''description'', Description e), (''sn'', SerialNumber e)]"

text \<open>
  The Go result pair \<open>(*EcoflowExporter, error)\<close>: \<open>None\<close> is \<open>nil\<close> in either
  component.
\<close>

definition CreateExporters ::
  "Ecoflow \<Rightarrow> Duration \<Rightarrow> EcoflowExporter option \<times> go_error option" where
  "CreateExporters e t =
     (Some \<lparr>ecoflow = e, checkTimeout = t,
        checkError = NewGauge namespace ''check_error'' ''check error'' (exporter_labels e),
        soc = NewGauge namespace ''soc'' ''State of charge'' (exporter_labels e),
        remaintime = NewGauge namespace ''remain_time'' ''Remain time'' (exporter_labels e),
        wattsoutsum =
          NewGauge namespace ''watts_out_sum'' ''Current wats output'' (exporter_labels e),
        wattsinsum =
          NewGauge namespace ''watts_in_sum'' ''Current wats input'' (exporter_labels e)\<rparr>,
      None)"

section \<open>The device list of main\<close>

text \<open>
  \<open>ecoflowList\<close> is a Go map keyed by serial number. The loop of \<open>main\<close> walks the
  loaded slice in index order; an entry whose serial number is not yet a key is copied,
  given its defaults and stored under the serial number it had in the slice.
\<close>

definition dedup_step :: "(string \<rightharpoonup> Ecoflow) \<Rightarrow> Ecoflow \<Rightarrow> (string \<rightharpoonup> Ecoflow)" where
  "dedup_step m c =
     (case m (SerialNumber c) of
        Some _ \<Rightarrow> m
      | None \<Rightarrow> m(SerialNumber c \<mapsto> defaults c))"

fun dedup_loop :: "Ecoflow list \<Rightarrow> (string \<rightharpoonup> Ecoflow) \<Rightarrow> (string \<rightharpoonup> Ecoflow)" where
  "dedup_loop [] m = m"
| "dedup_loop (c # cs) m = dedup_loop cs (dedup_step m c)"

definition ecoflowList :: "Ecoflow list \<Rightarrow> (string \<rightharpoonup> Ecoflow)" where
  "ecoflowList ecoflowListConfig = dedup_loop ecoflowListConfig Map.empty"

section \<open>The HTTP client, as getEcoflowApiData uses it\<close>

text \<open>
  The calls into \<open>net/http\<close>, \<open>io\<close> and \<open>encoding/json\<close> are parameters of the model:
  a \<open>world\<close> says what each of them returns. \<open>Body\<close> of a response is what
  \<open>io.ReadAll\<close> gets from it: the bytes, or the error that ends the read.
  Header keys are written as in the source.
\<close>

record Client =
  Timeout :: Duration

record Request =
  Method :: string
  URL :: string
  Header :: "string \<rightharpoonup> string"

record Response =
  StatusCode :: int
  Body :: "go_error + string"

record world =
  NewRequest :: "string \<Rightarrow> string \<Rightarrow> go_error + Request"
  ClientDo :: "Client \<Rightarrow> Request \<Rightarrow> go_error + Response"
  Unmarshal :: "string \<Rightarrow> go_error + EcoflowApi"

text \<open>What a call does on the network, in order.\<close>

datatype event = EvDo Client Request | EvReadAll | EvClose

text \<open>
  A call either returns to its caller or ends the process: \<open>log.Fatal\<close> prints the
  error and calls \<open>os.Exit(1)\<close>, and no deferred function runs.
\<close>

datatype 'a outcome = Fatal go_error | Returns 'a

definition Header_Set :: "Request \<Rightarrow> string \<Rightarrow> string \<Rightarrow> Request" where
  "Header_Set req k v = req\<lparr>Header := (Header req)(k \<mapsto> v)\<rparr>"

definition api_url :: "Ecoflow \<Rightarrow> string" where
  "api_url e =
     ''https://api.ecoflow.com/iot-service/open/api/device/queryDeviceQuota?sn=''
       @ SerialNumber e"

definition set_headers :: "Ecoflow \<Rightarrow> Request \<Rightarrow> Request" where
  "set_headers e req =
     Header_Set
       (Header_Set
          (Header_Set
             (Header_Set req ''User-Agent'' ''prometheus-ecoflow-exporter'')
             ''Content-Type'' ''application/json'')
          ''appKey'' (AppKey e))
       ''secretKey'' (SecretKey e)"

text \<open>
  \<open>getEcoflowApiData\<close> returns the Go pair \<open>(EcoflowApi, error)\<close>, with \<open>None\<close>
  for a \<open>nil\<close> error, and the events of the call. Once \<open>Do\<close> has given a response,
  the deferred \<open>Body.Close()\<close> runs on each return.
\<close>

definition getEcoflowApiData ::
  "world \<Rightarrow> Ecoflow \<Rightarrow> Duration \<Rightarrow> event list \<times> (EcoflowApi \<times> go_error option) outcome" where
  "getEcoflowApiData w e t =
     (let url = api_url e;
          httpClient = \<lparr>Timeout = t\<rparr>
      in case NewRequest w ''GET'' url of
           Inl err \<Rightarrow> ([], Fatal err)
         | Inr req0 \<Rightarrow>
             (let req = set_headers e req0
              in case ClientDo w httpClient req of
                   Inl getErr \<Rightarrow> ([EvDo httpClient req], Returns (EcoflowApi_zero, Some getErr))
                 | Inr res \<Rightarrow>
                     (case Body res of
                        Inl readErr \<Rightarrow>
                          ([EvDo httpClient req, EvReadAll, EvClose],
                           Returns (EcoflowApi_zero, Some readErr))
                      | Inr body \<Rightarrow>
                          (case Unmarshal w body of
                             Inl jsonErr \<Rightarrow>
                               ([EvDo httpClient req, EvReadAll, EvClose],
                                Returns (EcoflowApi_zero, Some jsonErr))
                           | Inr ecoflowData \<Rightarrow>
                               ([EvDo httpClient req, EvReadAll, EvClose],
                                Returns (ecoflowData, None))))))"

definition is_EvDo :: "event \<Rightarrow> bool" where
  "is_EvDo ev = (case ev of EvDo _ _ \<Rightarrow> True | _ \<Rightarrow> False)"

section \<open>Collect\<close>

text \<open>
  The deferred function of \<open>Collect\<close> sends the five gauges on the channel, in this
  order, and unlocks. It runs when \<open>Collect\<close> returns, on either branch; it does not run
  when \<open>getEcoflowApiData\<close> ends the process.
\<close>

definition Collect_deferred :: "EcoflowExporter \<Rightarrow> Gauge list" where
  "Collect_deferred ex =
     [soc ex, remaintime ex, wattsinsum ex, wattsoutsum ex, checkError ex]"

definition Collect :: "world \<Rightarrow> EcoflowExporter \<Rightarrow> (EcoflowExporter \<times> Gauge list) outcome" where
  "Collect w ex =
     (case snd (getEcoflowApiData w (ecoflow ex) (checkTimeout ex)) of
        Fatal err \<Rightarrow> Fatal err
      | Returns (res, err) \<Rightarrow>
          (let ex' =
             (if err \<noteq> None \<or> ''0'' \<noteq> Code res
              then ex\<lparr>checkError := Set_gauge (checkError ex) 1\<rparr>
              else ex\<lparr>soc := Set_gauge (soc ex) (Soc (Data res)),
                      remaintime := Set_gauge (remaintime ex) (RemainTime (Data res)),
                      wattsinsum := Set_gauge (wattsinsum ex) (WattsInSum (Data res)),
                      wattsoutsum := Set_gauge (wattsoutsum ex) (WattsOutSum (Data res))\<rparr>)
           in Returns (ex', Collect_deferred ex')))"

section \<open>Sample devices and worlds\<close>

text \<open>
  Concrete inputs for evaluating the functions above. \<open>std_NewRequest\<close> fails as
  \<open>http.NewRequest\<close> does on a URL that holds an ASCII control byte (\<open>net/url\<close> refuses
  to parse it); \<open>sample_Unmarshal\<close> decodes the two bodies used below and fails on any
  other.
\<close>

definition stringContainsCTLByte :: "string \<Rightarrow> bool" where
  "stringContainsCTLByte s =
     list_ex (\<lambda>b. of_char b < (32::nat) \<or> of_char b = (127::nat)) s"

definition std_NewRequest :: "string \<Rightarrow> string \<Rightarrow> go_error + Request" where
  "std_NewRequest method url =
     (if stringContainsCTLByte url
      then Inl (GoError ''net/url: invalid control character in URL'')
      else Inr \<lparr>Method = method, URL = url, Header = Map.empty\<rparr>)"

definition dq :: "string \<Rightarrow> string" where
  "dq s = CHR 0x22 # s @ [CHR 0x22]"

definition body_ok :: string where
  "body_ok =
     ''{'' @ dq ''code'' @ '':'' @ dq ''0'' @ '','' @ dq ''message'' @ '':'' @ dq ''Success''
       @ '','' @ dq ''data'' @ '':{'' @ dq ''soc'' @ '':55,'' @ dq ''remainTime'' @ '':120,''
       @ dq ''wattsOutSum'' @ '':30,'' @ dq ''wattsInSum'' @ '':0}}''"

definition body_code1 :: string where
  "body_code1 =
     ''{'' @ dq ''code'' @ '':'' @ dq ''1'' @ '','' @ dq ''data'' @ '':{'' @ dq ''soc''
       @ '':10}}''"

definition reading_ok :: EcoflowApi where
  "reading_ok =
     \<lparr>Code = ''0'', Message = ''Success'',
      Data = \<lparr>Soc = 55, RemainTime = 120, WattsOutSum = 30, WattsInSum = 0\<rparr>\<rparr>"

definition reading_code1 :: EcoflowApi where
  "reading_code1 =
     \<lparr>Code = ''1'', Message = [],
      Data = \<lparr>Soc = 10, RemainTime = 0, WattsOutSum = 0, WattsInSum = 0\<rparr>\<rparr>"

definition sample_Unmarshal :: "string \<Rightarrow> go_error + EcoflowApi" where
  "sample_Unmarshal body =
     (if body = body_ok then Inr reading_ok
      else if body = body_code1 then Inr reading_code1
      else Inl (GoError ''unexpected end of JSON input''))"

definition sample_world :: "go_error + Response \<Rightarrow> world" where
  "sample_world answer =
     \<lparr>NewRequest = std_NewRequest, ClientDo = (\<lambda>c req. answer),
      Unmarshal = sample_Unmarshal\<rparr>"

definition world_up :: world where
  "world_up = sample_world (Inr \<lparr>StatusCode = 200, Body = Inr body_ok\<rparr>)"

definition world_code1 :: world where
  "world_code1 = sample_world (Inr \<lparr>StatusCode = 200, Body = Inr body_code1\<rparr>)"

definition world_500 :: world where
  "world_500 = sample_world (Inr \<lparr>StatusCode = 500, Body = Inr body_ok\<rparr>)"

definition world_down :: world where
  "world_down = sample_world (Inl (GoError ''dial tcp: connection refused''))"

definition world_read_error :: world where
  "world_read_error =
     sample_world (Inr \<lparr>StatusCode = 200, Body = Inl (GoError ''unexpected EOF'')\<rparr>)"

definition world_empty_body :: world where
  "world_empty_body = sample_world (Inr \<lparr>StatusCode = 200, Body = Inr []\<rparr>)"

definition dev_ok :: Ecoflow where
  "dev_ok =
     \<lparr>Description = ''garage'', SerialNumber = ''R331ZEB4ZEAL0528'', AppKey = ''ak'',
      SecretKey = ''sk''\<rparr>"

definition dev_ctl :: Ecoflow where
  "dev_ctl =
     \<lparr>Description = ''garage'', SerialNumber = ''R331'' @ [CHR 0x0A], AppKey = ''ak'',
      SecretKey = ''sk''\<rparr>"

definition five_seconds :: Duration where
  "five_seconds = 5 * 1000000000"

definition req_ok :: Request where
  "req_ok = set_headers dev_ok \<lparr>Method = ''GET'', URL = api_url dev_ok, Header = Map.empty\<rparr>"

text \<open>The status test the program does not make: an HTTP status from 200 to 299.\<close>

definition is_2xx :: "Response \<Rightarrow> bool" where
  "is_2xx res = (200 \<le> StatusCode res \<and> StatusCode res \<le> 299)"

text \<open>
  Reading results: what a call returned, if it returned; the exporter that
  \<open>CreateExporters\<close> hands back; the values of the gauges sent on the channel.
\<close>

definition returned :: "'a outcome \<Rightarrow> 'a option" where
  "returned out = (case out of Returns x \<Rightarrow> Some x | Fatal _ \<Rightarrow> None)"

definition created :: "Ecoflow \<Rightarrow> Duration \<Rightarrow> EcoflowExporter" where
  "created e t = the (fst (CreateExporters e t))"

definition emitted_values ::
  "(EcoflowExporter \<times> Gauge list) outcome \<Rightarrow> float64 list option" where
  "emitted_values out = map_option (\<lambda>(ex, ch). map gauge_value ch) (returned out)"

text \<open>
  The exporter of \<open>dev_ok\<close> after a cycle that failed, and after a cycle that read
  \<open>reading_ok\<close>.
\<close>

definition exporter_failed :: EcoflowExporter where
  "exporter_failed =
     (created dev_ok five_seconds)
       \<lparr>checkError := Set_gauge (checkError (created dev_ok five_seconds)) 1\<rparr>"

definition exporter_seen :: EcoflowExporter where
  "exporter_seen =
     (created dev_ok five_seconds)
       \<lparr>soc := Set_gauge (soc (created dev_ok five_seconds)) 55,
        remaintime := Set_gauge (remaintime (created dev_ok five_seconds)) 120,
        wattsinsum := Set_gauge (wattsinsum (created dev_ok five_seconds)) 0,
        wattsoutsum := Set_gauge (wattsoutsum (created dev_ok five_seconds)) 30\<rparr>"

definition sample_config :: "Ecoflow list" where
  "sample_config =
     [\<lparr>Description = [], SerialNumber = ''A1'', AppKey = ''k1'', SecretKey = ''s1''\<rparr>,
      \<lparr>Description = ''shed'', SerialNumber = ''B2'', AppKey = ''k2'', SecretKey = ''s2''\<rparr>,
      \<lparr>Description = ''copy'', SerialNumber = ''A1'', AppKey = ''k3'', SecretKey = ''s3''\<rparr>]"

section \<open>Properties of defaults and CreateExporters\<close>

text \<open>
  C5. \<open>defaults\<close> puts the serial number into the description exactly when the
  description is the empty string, and otherwise returns its argument as it is. The serial
  number and both keys are the same before and after, and the function has no error result.
\<close>

theorem defaults_label:
  "(Description p = [] \<longrightarrow> Description (defaults p) = SerialNumber p)
   \<and> (Description p \<noteq> [] \<longrightarrow> defaults p = p)
   \<and> SerialNumber (defaults p) = SerialNumber p
   \<and> AppKey (defaults p) = AppKey p
   \<and> SecretKey (defaults p) = SecretKey p"
  by (simp add: defaults_def)

theorem defaults_label_witness:
  "Description (defaults \<lparr>Description = [], SerialNumber = ''R331'', AppKey = ''a'',
      SecretKey = ''s''\<rparr>) = ''R331''
   \<and> defaults \<lparr>Description = ''garage'', SerialNumber = ''R331'', AppKey = ''a'',
      SecretKey = ''s''\<rparr>
     = \<lparr>Description = ''garage'', SerialNumber = ''R331'', AppKey = ''a'', SecretKey = ''s''\<rparr>"
  using
    defaults_label [of "\<lparr>Description = [], SerialNumber = ''R331'', AppKey = ''a'',
      SecretKey = ''s''\<rparr>"]
    defaults_label [of "\<lparr>Description = ''garage'', SerialNumber = ''R331'', AppKey = ''a'',
      SecretKey = ''s''\<rparr>"]
  by simp

text \<open>
  C10. For every device and every timeout \<open>CreateExporters\<close> returns an exporter
  (not \<open>nil\<close>) together with a \<open>nil\<close> error; the exporter holds the device and the
  timeout it was given.
\<close>

theorem CreateExporters_never_fails:
  "\<exists>ex. CreateExporters e t = (Some ex, None) \<and> ecoflow ex = e \<and> checkTimeout ex = t"
  by (simp add: CreateExporters_def)

section \<open>The sample worlds, evaluated\<close>

lemma NewRequest_dev_ok:
  "std_NewRequest ''GET'' (api_url dev_ok)
     = Inr \<lparr>Method = ''GET'', URL = api_url dev_ok, Header = Map.empty\<rparr>"
  by (simp add: std_NewRequest_def api_url_def dev_ok_def stringContainsCTLByte_def)

lemma NewRequest_dev_ctl:
  "std_NewRequest ''GET'' (api_url dev_ctl)
     = Inl (GoError ''net/url: invalid control character in URL'')"
  by (simp add: std_NewRequest_def api_url_def dev_ctl_def stringContainsCTLByte_def)

lemma NewRequest_sample_ok:
  "NewRequest (sample_world answer) ''GET'' (api_url dev_ok)
     = Inr \<lparr>Method = ''GET'', URL = api_url dev_ok, Header = Map.empty\<rparr>"
  by (simp add: sample_world_def NewRequest_dev_ok)

lemma body_ok_neq_code1: "body_code1 \<noteq> body_ok"
  by (simp add: body_ok_def body_code1_def dq_def)

lemma fetch_sample_world:
  "getEcoflowApiData (sample_world (Inr \<lparr>StatusCode = st, Body = Inr body_ok\<rparr>)) dev_ok t =
     ([EvDo \<lparr>Timeout = t\<rparr> req_ok, EvReadAll, EvClose], Returns (reading_ok, None))"
  by (simp add: getEcoflowApiData_def sample_world_def NewRequest_dev_ok
      sample_Unmarshal_def req_ok_def)

lemma fetch_world_code1:
  "getEcoflowApiData world_code1 dev_ok t =
     ([EvDo \<lparr>Timeout = t\<rparr> req_ok, EvReadAll, EvClose], Returns (reading_code1, None))"
  by (simp add: getEcoflowApiData_def world_code1_def sample_world_def NewRequest_dev_ok
      sample_Unmarshal_def req_ok_def body_ok_neq_code1)

lemma fetch_world_down:
  "getEcoflowApiData world_down dev_ok t =
     ([EvDo \<lparr>Timeout = t\<rparr> req_ok],
      Returns (EcoflowApi_zero, Some (GoError ''dial tcp: connection refused'')))"
  by (simp add: getEcoflowApiData_def world_down_def sample_world_def NewRequest_dev_ok
      req_ok_def)

lemma fetch_dev_ctl:
  "getEcoflowApiData (sample_world answer) dev_ctl t =
     ([], Fatal (GoError ''net/url: invalid control character in URL''))"
  by (simp add: getEcoflowApiData_def sample_world_def NewRequest_dev_ctl)

lemma created_dev_ok:
  "CreateExporters dev_ok five_seconds = (Some (created dev_ok five_seconds), None)"
  by (simp add: created_def CreateExporters_def)

lemma ecoflow_created: "ecoflow (created e t) = e" "checkTimeout (created e t) = t"
  by (simp_all add: created_def CreateExporters_def)

lemma exporter_seen_fields:
  "ecoflow exporter_seen = dev_ok" "checkTimeout exporter_seen = five_seconds"
  "gauge_value (soc exporter_seen) = 55" "gauge_value (remaintime exporter_seen) = 120"
  "gauge_value (wattsinsum exporter_seen) = 0" "gauge_value (wattsoutsum exporter_seen) = 30"
  "gauge_value (checkError exporter_seen) = 0"
  by (simp_all add: exporter_seen_def created_def CreateExporters_def Set_gauge_def
      NewGauge_def)

section \<open>Properties of the device list\<close>

lemma dedup_loop_lookup:
  "dedup_loop cs m s =
     (case m s of
        Some v \<Rightarrow> Some v
      | None \<Rightarrow> map_option defaults (find (\<lambda>c. SerialNumber c = s) cs))"
  by (induction cs arbitrary: m) (auto simp: dedup_step_def split: option.splits)

text \<open>
  C4. For every loaded list, duplicates included, the device map has an entry under a
  serial number exactly when the list holds that serial number, so one entry for each
  distinct serial number; the entry is the first element of the list with that serial
  number, after \<open>defaults\<close>.
\<close>

theorem ecoflowList_first_occurrence:
  "ecoflowList cfg s = map_option defaults (find (\<lambda>c. SerialNumber c = s) cfg)
   \<and> dom (ecoflowList cfg) = SerialNumber ` set cfg
   \<and> card (dom (ecoflowList cfg)) = length (remdups (map SerialNumber cfg))"
proof -
  have look: "ecoflowList cfg k = map_option defaults (find (\<lambda>c. SerialNumber c = k) cfg)"
    for k
    by (simp add: ecoflowList_def dedup_loop_lookup)
  have keys: "dom (ecoflowList cfg) = SerialNumber ` set cfg"
    by (auto simp: dom_def look find_None_iff)
  have "card (SerialNumber ` set cfg) = length (remdups (map SerialNumber cfg))"
    by (metis List.card_set list.set_map)
  with look keys show ?thesis by simp
qed

text \<open>
  On a list of three entries whose first and third share the serial number \<open>A1\<close>, the
  map has two entries, and \<open>A1\<close> maps to the first entry with its description filled in.
\<close>

theorem ecoflowList_first_occurrence_witness:
  "ecoflowList sample_config ''A1''
     = Some \<lparr>Description = ''A1'', SerialNumber = ''A1'', AppKey = ''k1'', SecretKey = ''s1''\<rparr>
   \<and> ecoflowList sample_config ''B2''
     = Some \<lparr>Description = ''shed'', SerialNumber = ''B2'', AppKey = ''k2'', SecretKey = ''s2''\<rparr>
   \<and> card (dom (ecoflowList sample_config)) = 2"
proof -
  note first = ecoflowList_first_occurrence [of sample_config]
  from first [of "''A1''", THEN conjunct1]
  have a: "ecoflowList sample_config ''A1''
     = Some \<lparr>Description = ''A1'', SerialNumber = ''A1'', AppKey = ''k1'', SecretKey = ''s1''\<rparr>"
    by (simp add: sample_config_def defaults_def)
  from first [of "''B2''", THEN conjunct1]
  have b: "ecoflowList sample_config ''B2''
     = Some \<lparr>Description = ''shed'', SerialNumber = ''B2'', AppKey = ''k2'', SecretKey = ''s2''\<rparr>"
    by (simp add: sample_config_def defaults_def)
  from first [of "''A1''", THEN conjunct2, THEN conjunct2]
  have "card (dom (ecoflowList sample_config)) = 2"
    by (simp add: sample_config_def)
  with a b show ?thesis by simp
qed

section \<open>Properties of getEcoflowApiData\<close>

text \<open>
  C3, as the code has it. When the request can be built, \<open>getEcoflowApiData\<close> returns
  an error exactly when \<open>Do\<close> fails, reading the body fails or decoding the body fails;
  when all three succeed it returns the decoded value as it is, with a \<open>nil\<close> error,
  whatever its \<open>Code\<close> and whatever the HTTP status of the response; and it calls
  \<open>Do\<close> at most once.
\<close>

theorem fetch_error_iff:
  assumes "NewRequest w ''GET'' (api_url e) = Inr req0"
  shows "((\<exists>r err. snd (getEcoflowApiData w e t) = Returns (r, Some err))
          \<longleftrightarrow> ((\<exists>err. ClientDo w \<lparr>Timeout = t\<rparr> (set_headers e req0) = Inl err)
               \<or> (\<exists>res err. ClientDo w \<lparr>Timeout = t\<rparr> (set_headers e req0) = Inr res
                    \<and> Body res = Inl err)
               \<or> (\<exists>res body err. ClientDo w \<lparr>Timeout = t\<rparr> (set_headers e req0) = Inr res
                    \<and> Body res = Inr body \<and> Unmarshal w body = Inl err)))
         \<and> (\<forall>res body d. ClientDo w \<lparr>Timeout = t\<rparr> (set_headers e req0) = Inr res
               \<and> Body res = Inr body \<and> Unmarshal w body = Inr d
             \<longrightarrow> snd (getEcoflowApiData w e t) = Returns (d, None))
         \<and> length (filter is_EvDo (fst (getEcoflowApiData w e t))) \<le> 1"
  using assms
  by (auto simp: getEcoflowApiData_def is_EvDo_def Let_def split: sum.splits)

text \<open>
  A response with status 500 is not a 2xx response, and the call returns the decoded
  body with a \<open>nil\<close> error: the status of the response is never read.
\<close>

theorem fetch_non2xx_counterexample:
  "ClientDo world_500 \<lparr>Timeout = five_seconds\<rparr> req_ok
     = Inr \<lparr>StatusCode = 500, Body = Inr body_ok\<rparr>
   \<and> \<not> is_2xx \<lparr>StatusCode = 500, Body = Inr body_ok\<rparr>
   \<and> getEcoflowApiData world_500 dev_ok five_seconds
     = ([EvDo \<lparr>Timeout = five_seconds\<rparr> req_ok, EvReadAll, EvClose],
        Returns (reading_ok, None))"
  by (simp add: world_500_def fetch_sample_world is_2xx_def) (simp add: sample_world_def)

text \<open>
  With the connection refused the call returns an error; with a decodable answer it
  returns the decoded value after one request.
\<close>

theorem fetch_error_iff_witness:
  "NewRequest world_down ''GET'' (api_url dev_ok)
     = Inr \<lparr>Method = ''GET'', URL = api_url dev_ok, Header = Map.empty\<rparr>
   \<and> (\<exists>r err. snd (getEcoflowApiData world_down dev_ok five_seconds) = Returns (r, Some err))
   \<and> snd (getEcoflowApiData world_up dev_ok five_seconds) = Returns (reading_ok, None)
   \<and> length (filter is_EvDo (fst (getEcoflowApiData world_up dev_ok five_seconds))) \<le> 1"
proof -
  have down: "NewRequest world_down ''GET'' (api_url dev_ok)
     = Inr \<lparr>Method = ''GET'', URL = api_url dev_ok, Header = Map.empty\<rparr>"
    by (simp add: world_down_def NewRequest_sample_ok)
  have up: "NewRequest world_up ''GET'' (api_url dev_ok)
     = Inr \<lparr>Method = ''GET'', URL = api_url dev_ok, Header = Map.empty\<rparr>"
    by (simp add: world_up_def NewRequest_sample_ok)
  have fails: "ClientDo world_down \<lparr>Timeout = five_seconds\<rparr>
      (set_headers dev_ok \<lparr>Method = ''GET'', URL = api_url dev_ok, Header = Map.empty\<rparr>)
     = Inl (GoError ''dial tcp: connection refused'')"
    by (simp add: world_down_def sample_world_def)
  have answers: "ClientDo world_up \<lparr>Timeout = five_seconds\<rparr>
      (set_headers dev_ok \<lparr>Method = ''GET'', URL = api_url dev_ok, Header = Map.empty\<rparr>)
     = Inr \<lparr>StatusCode = 200, Body = Inr body_ok\<rparr>"
    "Unmarshal world_up body_ok = Inr reading_ok"
    by (simp_all add: world_up_def sample_world_def sample_Unmarshal_def)
  from fetch_error_iff [OF down, of five_seconds] fails
  have "\<exists>r err. snd (getEcoflowApiData world_down dev_ok five_seconds) = Returns (r, Some err)"
    by blast
  moreover from fetch_error_iff [OF up, of five_seconds] answers
  have "snd (getEcoflowApiData world_up dev_ok five_seconds) = Returns (reading_ok, None)"
    "length (filter is_EvDo (fst (getEcoflowApiData world_up dev_ok five_seconds))) \<le> 1"
    by simp_all
  ultimately show ?thesis using down by simp
qed

text \<open>
  C6, as the code has it. The timeout is not examined: for every value of it, zero and
  negative ones too, a request that can be built is sent with the client's \<open>Timeout\<close>
  set to that value, and when the transport, the read and the decoding succeed the decoded
  value comes back with a \<open>nil\<close> error.
\<close>

theorem fetch_timeout_unchecked:
  assumes "NewRequest w ''GET'' (api_url e) = Inr req0"
  shows "(\<exists>tr. fst (getEcoflowApiData w e t) = EvDo \<lparr>Timeout = t\<rparr> (set_headers e req0) # tr)
     \<and> (\<forall>res body d. ClientDo w \<lparr>Timeout = t\<rparr> (set_headers e req0) = Inr res
               \<and> Body res = Inr body \<and> Unmarshal w body = Inr d
             \<longrightarrow> snd (getEcoflowApiData w e t) = Returns (d, None))"
  using assms
  by (auto simp: getEcoflowApiData_def Let_def split: sum.splits)

text \<open>
  With a timeout of zero, and with a negative one, the request is sent and the reading
  is returned; nothing is rejected.
\<close>

theorem fetch_zero_timeout_counterexample:
  "getEcoflowApiData world_up dev_ok 0
     = ([EvDo \<lparr>Timeout = 0\<rparr> req_ok, EvReadAll, EvClose], Returns (reading_ok, None))
   \<and> getEcoflowApiData world_up dev_ok (- 1)
     = ([EvDo \<lparr>Timeout = - 1\<rparr> req_ok, EvReadAll, EvClose], Returns (reading_ok, None))"
  by (simp add: world_up_def fetch_sample_world)

text \<open>The same at timeout zero against the upstream that answers with code 1.\<close>

theorem fetch_timeout_unchecked_witness:
  "NewRequest world_code1 ''GET'' (api_url dev_ok)
     = Inr \<lparr>Method = ''GET'', URL = api_url dev_ok, Header = Map.empty\<rparr>
   \<and> (\<exists>tr. fst (getEcoflowApiData world_code1 dev_ok 0) = EvDo \<lparr>Timeout = 0\<rparr> req_ok # tr)
   \<and> snd (getEcoflowApiData world_code1 dev_ok 0) = Returns (reading_code1, None)"
proof -
  have req: "NewRequest world_code1 ''GET'' (api_url dev_ok)
     = Inr \<lparr>Method = ''GET'', URL = api_url dev_ok, Header = Map.empty\<rparr>"
    by (simp add: world_code1_def NewRequest_sample_ok)
  have answers: "ClientDo world_code1 \<lparr>Timeout = 0\<rparr> req_ok
     = Inr \<lparr>StatusCode = 200, Body = Inr body_code1\<rparr>"
    "Unmarshal world_code1 body_code1 = Inr reading_code1"
    by (simp_all add: world_code1_def sample_world_def sample_Unmarshal_def body_ok_neq_code1)
  from fetch_timeout_unchecked [OF req, of 0] answers req show ?thesis
    by (simp add: req_ok_def)
qed

text \<open>The ways out of \<open>getEcoflowApiData\<close> that do not return a reading.\<close>

lemma fetch_NewRequest_error:
  "NewRequest w ''GET'' (api_url e) = Inl err \<Longrightarrow> getEcoflowApiData w e t = ([], Fatal err)"
  by (simp add: getEcoflowApiData_def)

lemma fetch_Do_error:
  "NewRequest w ''GET'' (api_url e) = Inr req0
   \<Longrightarrow> ClientDo w \<lparr>Timeout = t\<rparr> (set_headers e req0) = Inl getErr
   \<Longrightarrow> snd (getEcoflowApiData w e t) = Returns (EcoflowApi_zero, Some getErr)"
  by (simp add: getEcoflowApiData_def)

lemma fetch_read_error:
  "NewRequest w ''GET'' (api_url e) = Inr req0
   \<Longrightarrow> ClientDo w \<lparr>Timeout = t\<rparr> (set_headers e req0) = Inr res
   \<Longrightarrow> Body res = Inl readErr
   \<Longrightarrow> snd (getEcoflowApiData w e t) = Returns (EcoflowApi_zero, Some readErr)"
  by (simp add: getEcoflowApiData_def)

lemma fetch_json_error:
  "NewRequest w ''GET'' (api_url e) = Inr req0
   \<Longrightarrow> ClientDo w \<lparr>Timeout = t\<rparr> (set_headers e req0) = Inr res
   \<Longrightarrow> Body res = Inr body \<Longrightarrow> Unmarshal w body = Inl jsonErr
   \<Longrightarrow> snd (getEcoflowApiData w e t) = Returns (EcoflowApi_zero, Some jsonErr)"
  by (simp add: getEcoflowApiData_def)

lemma fetch_fatal_or_returns:
  "(snd (getEcoflowApiData w e t) = Fatal err
      \<longleftrightarrow> NewRequest w ''GET'' (api_url e) = Inl err)
   \<and> ((\<exists>r. snd (getEcoflowApiData w e t) = Returns r)
      \<longleftrightarrow> (\<exists>req0. NewRequest w ''GET'' (api_url e) = Inr req0))"
  by (auto simp: getEcoflowApiData_def Let_def split: sum.splits)

text \<open>
  C7, as the code has it. \<open>getEcoflowApiData\<close> ends the process exactly when
  \<open>http.NewRequest\<close> fails, with that error; whenever the request can be built it
  returns to its caller, whatever \<open>Do\<close>, the read of the body and the decoding do.
  A failure of \<open>Do\<close> (no connection, timeout, malformed response), of the read of the
  body or of the decoding is handed to the caller as the error value of the returned
  pair, beside the zero \<open>EcoflowApi\<close>.
\<close>

theorem fetch_fatal_iff:
  "(snd (getEcoflowApiData w e t) = Fatal err
      \<longleftrightarrow> NewRequest w ''GET'' (api_url e) = Inl err)
   \<and> ((\<exists>r. snd (getEcoflowApiData w e t) = Returns r)
      \<longleftrightarrow> (\<exists>req0. NewRequest w ''GET'' (api_url e) = Inr req0))
   \<and> (\<forall>req0 getErr. NewRequest w ''GET'' (api_url e) = Inr req0
          \<and> ClientDo w \<lparr>Timeout = t\<rparr> (set_headers e req0) = Inl getErr
        \<longrightarrow> snd (getEcoflowApiData w e t) = Returns (EcoflowApi_zero, Some getErr))
   \<and> (\<forall>req0 res readErr. NewRequest w ''GET'' (api_url e) = Inr req0
          \<and> ClientDo w \<lparr>Timeout = t\<rparr> (set_headers e req0) = Inr res
          \<and> Body res = Inl readErr
        \<longrightarrow> snd (getEcoflowApiData w e t) = Returns (EcoflowApi_zero, Some readErr))
   \<and> (\<forall>req0 res body jsonErr. NewRequest w ''GET'' (api_url e) = Inr req0
          \<and> ClientDo w \<lparr>Timeout = t\<rparr> (set_headers e req0) = Inr res
          \<and> Body res = Inr body \<and> Unmarshal w body = Inl jsonErr
        \<longrightarrow> snd (getEcoflowApiData w e t) = Returns (EcoflowApi_zero, Some jsonErr))"
proof (intro conjI allI impI)
  show "snd (getEcoflowApiData w e t) = Fatal err
      \<longleftrightarrow> NewRequest w ''GET'' (api_url e) = Inl err"
    using fetch_fatal_or_returns [of w e t err] by (rule conjunct1)
  show "(\<exists>r. snd (getEcoflowApiData w e t) = Returns r)
      \<longleftrightarrow> (\<exists>req0. NewRequest w ''GET'' (api_url e) = Inr req0)"
    using fetch_fatal_or_returns [of w e t err] by (rule conjunct2)
next
  fix req0 getErr
  assume "NewRequest w ''GET'' (api_url e) = Inr req0
          \<and> ClientDo w \<lparr>Timeout = t\<rparr> (set_headers e req0) = Inl getErr"
  then show "snd (getEcoflowApiData w e t) = Returns (EcoflowApi_zero, Some getErr)"
    by (simp add: fetch_Do_error)
next
  fix req0 res readErr
  assume "NewRequest w ''GET'' (api_url e) = Inr req0
          \<and> ClientDo w \<lparr>Timeout = t\<rparr> (set_headers e req0) = Inr res
          \<and> Body res = Inl readErr"
  then show "snd (getEcoflowApiData w e t) = Returns (EcoflowApi_zero, Some readErr)"
    by (simp add: fetch_read_error)
next
  fix req0 res body jsonErr
  assume "NewRequest w ''GET'' (api_url e) = Inr req0
          \<and> ClientDo w \<lparr>Timeout = t\<rparr> (set_headers e req0) = Inr res
          \<and> Body res = Inr body \<and> Unmarshal w body = Inl jsonErr"
  then show "snd (getEcoflowApiData w e t) = Returns (EcoflowApi_zero, Some jsonErr)"
    by (simp add: fetch_json_error)
qed

text \<open>
  A serial number that ends in a line feed gives a URL that \<open>http.NewRequest\<close>
  refuses, and the call ends the process before any request is sent.
\<close>

theorem fetch_fatal_counterexample:
  "getEcoflowApiData world_up dev_ctl five_seconds
     = ([], Fatal (GoError ''net/url: invalid control character in URL''))"
  by (simp add: world_up_def fetch_dev_ctl)

text \<open>
  At the sample devices: a refused connection, a body whose read breaks off and an empty
  body each come back as the error of the returned pair; the serial number with the line
  feed ends the process.
\<close>

theorem fetch_fatal_iff_witness:
  "NewRequest world_down ''GET'' (api_url dev_ok)
     = Inr \<lparr>Method = ''GET'', URL = api_url dev_ok, Header = Map.empty\<rparr>
   \<and> (\<exists>r. snd (getEcoflowApiData world_down dev_ok five_seconds) = Returns r)
   \<and> NewRequest world_down ''GET'' (api_url dev_ctl)
     = Inl (GoError ''net/url: invalid control character in URL'')
   \<and> snd (getEcoflowApiData world_down dev_ctl five_seconds)
     = Fatal (GoError ''net/url: invalid control character in URL'')
   \<and> snd (getEcoflowApiData world_down dev_ok five_seconds)
     = Returns (EcoflowApi_zero, Some (GoError ''dial tcp: connection refused''))
   \<and> snd (getEcoflowApiData world_read_error dev_ok five_seconds)
     = Returns (EcoflowApi_zero, Some (GoError ''unexpected EOF''))
   \<and> snd (getEcoflowApiData world_empty_body dev_ok five_seconds)
     = Returns (EcoflowApi_zero, Some (GoError ''unexpected end of JSON input''))"
proof -
  let ?req0 = "\<lparr>Method = ''GET'', URL = api_url dev_ok, Header = Map.empty\<rparr>"
  let ?broken = "\<lparr>StatusCode = 200, Body = Inl (GoError ''unexpected EOF'')\<rparr>"
  let ?empty = "\<lparr>StatusCode = 200, Body = Inr []\<rparr>"
  have ok: "NewRequest world_down ''GET'' (api_url dev_ok) = Inr ?req0"
    by (simp add: world_down_def NewRequest_sample_ok)
  have ctl: "NewRequest world_down ''GET'' (api_url dev_ctl)
     = Inl (GoError ''net/url: invalid control character in URL'')"
    by (simp add: world_down_def sample_world_def NewRequest_dev_ctl)
  have refused: "ClientDo world_down \<lparr>Timeout = five_seconds\<rparr> (set_headers dev_ok ?req0)
     = Inl (GoError ''dial tcp: connection refused'')"
    by (simp add: world_down_def sample_world_def)
  have rd_req: "NewRequest world_read_error ''GET'' (api_url dev_ok) = Inr ?req0"
    by (simp add: world_read_error_def NewRequest_sample_ok)
  have rd_do: "ClientDo world_read_error \<lparr>Timeout = five_seconds\<rparr> (set_headers dev_ok ?req0)
       = Inr ?broken"
    by (simp add: world_read_error_def sample_world_def)
  have rd_body: "Body ?broken = Inl (GoError ''unexpected EOF'')"
    by simp
  have js_req: "NewRequest world_empty_body ''GET'' (api_url dev_ok) = Inr ?req0"
    by (simp add: world_empty_body_def NewRequest_sample_ok)
  have js_do: "ClientDo world_empty_body \<lparr>Timeout = five_seconds\<rparr> (set_headers dev_ok ?req0)
       = Inr ?empty"
    by (simp add: world_empty_body_def sample_world_def)
  have js_body: "Body ?empty = Inr []"
    by simp
  have js_dec: "Unmarshal world_empty_body [] = Inl (GoError ''unexpected end of JSON input'')"
    by (simp add: world_empty_body_def sample_world_def sample_Unmarshal_def body_ok_def
        body_code1_def)
  note at_down = fetch_fatal_iff [of world_down dev_ok five_seconds]
  note at_ctl = fetch_fatal_iff [of world_down dev_ctl five_seconds]
  note at_read = fetch_fatal_iff [of world_read_error dev_ok five_seconds]
  note at_empty = fetch_fatal_iff [of world_empty_body dev_ok five_seconds]
  from at_down [THEN conjunct2, THEN conjunct1] ok
  have returns: "\<exists>r. snd (getEcoflowApiData world_down dev_ok five_seconds) = Returns r"
    by blast
  from at_down [THEN conjunct2, THEN conjunct2, THEN conjunct1, THEN spec, THEN spec, THEN mp,
      OF conjI, OF ok refused]
  have e1: "snd (getEcoflowApiData world_down dev_ok five_seconds)
     = Returns (EcoflowApi_zero, Some (GoError ''dial tcp: connection refused''))" .
  from at_ctl [THEN conjunct1] ctl
  have fatal: "snd (getEcoflowApiData world_down dev_ctl five_seconds)
     = Fatal (GoError ''net/url: invalid control character in URL'')"
    by blast
  from at_read [THEN conjunct2, THEN conjunct2, THEN conjunct2, THEN conjunct1,
      THEN spec, THEN spec, THEN spec, THEN mp, OF conjI, OF rd_req conjI, OF rd_do rd_body]
  have e2: "snd (getEcoflowApiData world_read_error dev_ok five_seconds)
     = Returns (EcoflowApi_zero, Some (GoError ''unexpected EOF''))" .
  from at_empty [THEN conjunct2, THEN conjunct2, THEN conjunct2, THEN conjunct2,
      THEN spec, THEN spec, THEN spec, THEN spec, THEN mp, OF conjI, OF js_req conjI,
      OF js_do conjI, OF js_body js_dec]
  have e3: "snd (getEcoflowApiData world_empty_body dev_ok five_seconds)
     = Returns (EcoflowApi_zero, Some (GoError ''unexpected end of JSON input''))" .
  from ok returns ctl fatal e1 e2 e3 show ?thesis by blast
qed

section \<open>Properties of Collect\<close>

text \<open>
  What a successful cycle does: the four telemetry gauges take the decoded values, and
  the check-error gauge is left as it was.
\<close>

lemma Collect_success:
  assumes "snd (getEcoflowApiData w (ecoflow ex) (checkTimeout ex)) = Returns (res, None)"
    and "Code res = ''0''"
  shows "\<exists>ex'. Collect w ex = Returns (ex', Collect_deferred ex')
           \<and> gauge_value (soc ex') = Soc (Data res)
           \<and> gauge_value (remaintime ex') = RemainTime (Data res)
           \<and> gauge_value (wattsoutsum ex') = WattsOutSum (Data res)
           \<and> gauge_value (wattsinsum ex') = WattsInSum (Data res)
           \<and> checkError ex' = checkError ex"
  using assms
  by (auto simp: Collect_def Set_gauge_def Let_def)

text \<open>
  C1. The exporter of \<open>dev_ok\<close>, as \<open>CreateExporters\<close> makes it, goes through a
  cycle with the connection refused and then through a cycle in which the call returns
  \<open>reading_ok\<close>, code \<open>0\<close>, with a \<open>nil\<close> error. After the second cycle the four
  telemetry gauges hold 55, 120, 0 and 30, and the check-error gauge, sent last, still
  holds 1.
\<close>

theorem check_error_stays_set:
  "CreateExporters dev_ok five_seconds = (Some (created dev_ok five_seconds), None)
   \<and> Collect world_down (created dev_ok five_seconds)
       = Returns (exporter_failed, Collect_deferred exporter_failed)
   \<and> gauge_value (checkError exporter_failed) = 1
   \<and> snd (getEcoflowApiData world_up (ecoflow exporter_failed) (checkTimeout exporter_failed))
       = Returns (reading_ok, None)
   \<and> Code reading_ok = ''0''
   \<and> emitted_values (Collect world_up exporter_failed) = Some [55, 120, 0, 30, 1]"
  by (simp add: created_dev_ok Collect_def ecoflow_created fetch_world_down exporter_failed_def
      world_up_def fetch_sample_world reading_ok_def emitted_values_def returned_def
      Collect_deferred_def Set_gauge_def)

text \<open>
  The value sent last in that second cycle, the check-error gauge, is 1 and not 0.
\<close>

theorem check_error_stays_set_witness:
  "map_option last (emitted_values (Collect world_up exporter_failed)) = Some 1
   \<and> map_option last (emitted_values (Collect world_up exporter_failed)) \<noteq> Some 0"
  using check_error_stays_set by simp

text \<open>
  C2. In every cycle in which \<open>getEcoflowApiData\<close> returns an error, or returns a
  reading whose code is not \<open>0\<close>, \<open>Collect\<close> returns with the check-error gauge at 1
  and each of the four telemetry gauges as it was before the cycle.
\<close>

theorem Collect_failure:
  assumes "snd (getEcoflowApiData w (ecoflow ex) (checkTimeout ex)) = Returns (res, err)"
    and "err \<noteq> None \<or> Code res \<noteq> ''0''"
  shows "\<exists>ex'. Collect w ex = Returns (ex', Collect_deferred ex')
           \<and> gauge_value (checkError ex') = 1
           \<and> soc ex' = soc ex \<and> remaintime ex' = remaintime ex
           \<and> wattsoutsum ex' = wattsoutsum ex \<and> wattsinsum ex' = wattsinsum ex"
  using assms
  by (auto simp: Collect_def Set_gauge_def Let_def)

text \<open>
  An exporter holding 55, 120, 0 and 30 keeps them through a cycle with the connection
  refused and through a cycle answered with code 1; the check-error gauge is 1 after each.
\<close>

theorem Collect_failure_witness:
  "snd (getEcoflowApiData world_down (ecoflow exporter_seen) (checkTimeout exporter_seen))
     = Returns (EcoflowApi_zero, Some (GoError ''dial tcp: connection refused''))
   \<and> emitted_values (Collect world_down exporter_seen) = Some [55, 120, 0, 30, 1]
   \<and> snd (getEcoflowApiData world_code1 (ecoflow exporter_seen) (checkTimeout exporter_seen))
     = Returns (reading_code1, None)
   \<and> Code reading_code1 \<noteq> ''0''
   \<and> emitted_values (Collect world_code1 exporter_seen) = Some [55, 120, 0, 30, 1]"
proof -
  have down:
    "snd (getEcoflowApiData world_down (ecoflow exporter_seen) (checkTimeout exporter_seen))
       = Returns (EcoflowApi_zero, Some (GoError ''dial tcp: connection refused''))"
    by (simp add: exporter_seen_fields fetch_world_down)
  have code1:
    "snd (getEcoflowApiData world_code1 (ecoflow exporter_seen) (checkTimeout exporter_seen))
       = Returns (reading_code1, None)"
    by (simp add: exporter_seen_fields fetch_world_code1)
  have c: "Code reading_code1 \<noteq> ''0''"
    by (simp add: reading_code1_def)
  from Collect_failure [OF down] have
    "emitted_values (Collect world_down exporter_seen) = Some [55, 120, 0, 30, 1]"
    by (auto simp: emitted_values_def returned_def Collect_deferred_def exporter_seen_fields)
  moreover from Collect_failure [OF code1] c have
    "emitted_values (Collect world_code1 exporter_seen) = Some [55, 120, 0, 30, 1]"
    by (auto simp: emitted_values_def returned_def Collect_deferred_def exporter_seen_fields)
  ultimately show ?thesis using down code1 c by simp
qed

text \<open>
  C8, as the code has it. \<open>Collect\<close> ends the process, with nothing sent, exactly when
  \<open>http.NewRequest\<close> fails inside \<open>getEcoflowApiData\<close>. Whenever the request can be
  built, \<open>Collect\<close> returns, on the failure branch as on the success branch, and has sent
  the five gauges with their values at that moment: state of charge, remaining time,
  watts in, watts out, check error.
\<close>

theorem Collect_emits:
  "(Collect w ex = Fatal err \<longleftrightarrow> NewRequest w ''GET'' (api_url (ecoflow ex)) = Inl err)
   \<and> ((\<exists>req0. NewRequest w ''GET'' (api_url (ecoflow ex)) = Inr req0)
       \<longrightarrow> (\<exists>ex'. Collect w ex
              = Returns (ex', [soc ex', remaintime ex', wattsinsum ex', wattsoutsum ex',
                  checkError ex'])))"
  by (auto simp: Collect_def Collect_deferred_def getEcoflowApiData_def Let_def
      split: sum.splits)

text \<open>
  For the device whose serial number ends in a line feed, \<open>Collect\<close> ends the process
  and no gauge is sent.
\<close>

theorem Collect_fatal_counterexample:
  "CreateExporters dev_ctl five_seconds = (Some (created dev_ctl five_seconds), None)
   \<and> Collect world_up (created dev_ctl five_seconds)
     = Fatal (GoError ''net/url: invalid control character in URL'')
   \<and> emitted_values (Collect world_up (created dev_ctl five_seconds)) = None"
  by (simp add: Collect_def ecoflow_created world_up_def fetch_dev_ctl emitted_values_def
      returned_def) (simp add: created_def CreateExporters_def)

text \<open>With the connection refused, the cycle of \<open>exporter_seen\<close> returns five gauges.\<close>

theorem Collect_emits_witness:
  "NewRequest world_down ''GET'' (api_url (ecoflow exporter_seen))
     = Inr \<lparr>Method = ''GET'', URL = api_url dev_ok, Header = Map.empty\<rparr>
   \<and> (\<exists>ex'. Collect world_down exporter_seen
         = Returns (ex', [soc ex', remaintime ex', wattsinsum ex', wattsoutsum ex',
             checkError ex']))"
proof -
  have ok: "NewRequest world_down ''GET'' (api_url (ecoflow exporter_seen))
     = Inr \<lparr>Method = ''GET'', URL = api_url dev_ok, Header = Map.empty\<rparr>"
    by (simp add: world_down_def NewRequest_sample_ok exporter_seen_fields)
  from Collect_emits [of world_down exporter_seen] ok show ?thesis
    by blast
qed

end
